theory Spec2Isabelle
  imports Complex_Main "HOL-Library.Multiset"
begin

section \<open>nucleus/io/sam.py: readers and writers of SAM/BAM records\<close>

text \<open>
  The module has three parts: \<open>NativeSamReader\<close>, whose constructor validates its
  arguments and opens one of two backends; \<open>NativeSamWriter\<close>, which raises on every
  entry point; and \<open>InMemorySamReader\<close>, which serves a list of reads held in memory.
  Python exceptions are values of the sum type \<open>exn + 'a\<close>, the calls a constructor makes
  to code outside the module are recorded in a list, and a generator is the list of the
  values it yields.
\<close>

subsection \<open>Python values\<close>

text \<open>
  A Python float is a finite number, an infinity or NaN. The module only compares
  \<open>downsample_fraction\<close> with the constants 0, 0.0 and 1.0, so a finite float is taken
  as the real number it denotes; an int argument is the real of the same value. Every
  comparison with NaN is false, except \<open>!=\<close>, which is true.
\<close>

datatype pyfloat = Finite real | PosInf | NegInf | NaN

fun float_lt :: "pyfloat \<Rightarrow> pyfloat \<Rightarrow> bool" where
  "float_lt NaN _ = False"
| "float_lt _ NaN = False"
| "float_lt (Finite x) (Finite y) = (x < y)"
| "float_lt (Finite x) PosInf = True"
| "float_lt (Finite x) NegInf = False"
| "float_lt PosInf _ = False"
| "float_lt NegInf NegInf = False"
| "float_lt NegInf _ = True"

fun float_eq :: "pyfloat \<Rightarrow> pyfloat \<Rightarrow> bool" where
  "float_eq NaN _ = False"
| "float_eq _ NaN = False"
| "float_eq (Finite x) (Finite y) = (x = y)"
| "float_eq PosInf PosInf = True"
| "float_eq NegInf NegInf = True"
| "float_eq _ _ = False"

definition float_le :: "pyfloat \<Rightarrow> pyfloat \<Rightarrow> bool" where
  "float_le a b = (float_lt a b \<or> float_eq a b)"

definition float_ne :: "pyfloat \<Rightarrow> pyfloat \<Rightarrow> bool" where
  "float_ne a b = (\<not> float_eq a b)"

datatype pyval = PStr string | PFloat pyfloat

datatype exn_class = ValueError | ImportError | NotImplementedError | OtherError

text \<open>An exception is its class and the arguments it was raised with.\<close>

datatype exn = Exn exn_class "pyval list"

fun exn_class_of :: "exn \<Rightarrow> exn_class" where
  "exn_class_of (Exn c _) = c"

text \<open>\<open>str.endswith\<close>.\<close>

definition endswith :: "string \<Rightarrow> string \<Rightarrow> bool" where
  "endswith s suffix =
     (length suffix \<le> length s \<and> drop (length s - length suffix) s = suffix)"

subsection \<open>InMemorySamReader\<close>

text \<open>
  A genomic range, \<open>nucleus.genomics.v1.Range\<close>: a reference name and a half-open
  interval.
\<close>

record Range =
  reference_name :: string
  range_start :: int
  range_end :: int

text \<open>
  Modelled from the spec: \<open>ranges.ranges_overlap\<close> lives in \<open>nucleus/util/ranges.py\<close>,
  which is not among the sources. Section 4.1 of the specification gives its contract: two
  half-open intervals overlap iff they are on the same reference sequence and
  \<open>region.start < span.end\<close> and \<open>span.start < region.end\<close>.
\<close>

definition ranges_overlap :: "Range \<Rightarrow> Range \<Rightarrow> bool" where
  "ranges_overlap region rspan =
     (reference_name region = reference_name rspan
      \<and> range_start region < range_end rspan
      \<and> range_start rspan < range_end region)"

text \<open>
  Modelled from the spec: the \<open>Read\<close> message (\<open>nucleus/protos\<close>) is not among
  the sources. The specification says of a record only that it exposes a derived genomic
  span (reference sequence name, start, end). A read is therefore a name and the three
  components of its span.
\<close>

record Read =
  fragment_name :: string
  aligned_reference :: string
  aligned_start :: int
  aligned_end :: int

text \<open>
  Modelled from the spec: \<open>utils.read_range\<close> lives in \<open>nucleus/util/utils.py\<close>,
  which is not among the sources. Section 6 of the specification says of
  \<open>derive_span\<close> that it maps a record to its genomic extent \<open>(ref, start, end)\<close>.
\<close>

definition read_range :: "Read \<Rightarrow> Range" where
  "read_range read =
     \<lparr>reference_name = aligned_reference read,
      range_start = aligned_start read,
      range_end = aligned_end read\<rparr>"

text \<open>The two attributes of the reader object.\<close>

record 'r InMemorySamReader =
  reads :: "'r list"
  is_sorted :: bool

text \<open>\<open>replace_reads\<close> assigns both attributes.\<close>

definition replace_reads ::
  "'r InMemorySamReader \<Rightarrow> 'r list \<Rightarrow> bool \<Rightarrow> 'r InMemorySamReader" where
  "replace_reads self new_reads new_is_sorted =
     self\<lparr>reads := new_reads, is_sorted := new_is_sorted\<rparr>"

text \<open>
  \<open>__init__\<close> calls \<open>replace_reads\<close> on the fresh object, which has no attribute
  yet; both are assigned by the call, so the fresh object's fields are placeholders.
\<close>

definition InMemorySamReader_init :: "'r list \<Rightarrow> bool \<Rightarrow> 'r InMemorySamReader" where
  "InMemorySamReader_init rs srt = replace_reads \<lparr>reads = [], is_sorted = False\<rparr> rs srt"

definition iterate :: "'r InMemorySamReader \<Rightarrow> 'r list" where
  "iterate self = reads self"

text \<open>
  \<open>query\<close> returns the generator
  \<open>(read for read in self.reads if ranges.ranges_overlap(region, utils.read_range(read)))\<close>.
  The generator walks the list from its head and yields a read when the test holds;
  \<open>scan_reads\<close> is that loop, and the list it returns is the sequence of yielded reads.
  The two helpers are outside the module; they are the parameters \<open>overlap\<close> and
  \<open>span_of\<close>, instantiated with \<open>ranges_overlap\<close> and \<open>read_range\<close> above
  where a concrete result is computed.
\<close>

fun scan_reads :: "('g \<Rightarrow> 'g \<Rightarrow> bool) \<Rightarrow> ('r \<Rightarrow> 'g) \<Rightarrow> 'g \<Rightarrow> 'r list \<Rightarrow> 'r list" where
  "scan_reads overlap span_of region [] = []"
| "scan_reads overlap span_of region (read # rest) =
     (if overlap region (span_of read)
      then read # scan_reads overlap span_of region rest
      else scan_reads overlap span_of region rest)"

definition query ::
  "('g \<Rightarrow> 'g \<Rightarrow> bool) \<Rightarrow> ('r \<Rightarrow> 'g) \<Rightarrow> 'r InMemorySamReader \<Rightarrow> 'g \<Rightarrow> 'r list" where
  "query overlap span_of self region = scan_reads overlap span_of region (reads self)"

text \<open>The three reads and the two regions of the specification's example.\<close>

definition read_A :: Read where
  "read_A = \<lparr>fragment_name = ''A'', aligned_reference = ''chr1'',
             aligned_start = 10, aligned_end = 20\<rparr>"

definition read_B :: Read where
  "read_B = \<lparr>fragment_name = ''B'', aligned_reference = ''chr1'',
             aligned_start = 30, aligned_end = 40\<rparr>"

definition read_C :: Read where
  "read_C = \<lparr>fragment_name = ''C'', aligned_reference = ''chr2'',
             aligned_start = 10, aligned_end = 20\<rparr>"

definition region_chr1 :: Range where
  "region_chr1 = \<lparr>reference_name = ''chr1'', range_start = 15, range_end = 35\<rparr>"

definition region_chr3 :: Range where
  "region_chr3 = \<lparr>reference_name = ''chr3'', range_start = 0, range_end = 100\<rparr>"

subsection \<open>NativeSamReader\<close>

datatype AuxFieldHandling = SKIP_AUX_FIELDS | PARSE_ALL_AUX_FIELDS

text \<open>
  \<open>reads_pb2.SamReaderOptions\<close>, with the five fields the constructor sets. The
  message class is generated code outside the module; it is taken as a plain record of
  the keyword arguments it is built from. \<open>'rr\<close> is the \<open>ReadRequirements\<close> message.
\<close>

record 'rr SamReaderOptions =
  read_requirements :: "'rr option"
  aux_field_handling :: AuxFieldHandling
  hts_block_size :: int
  downsample_fraction :: "pyfloat option"
  random_seed :: int

text \<open>The keyword arguments of \<open>tfbam_reader.make_sam_reader\<close>.\<close>

record 'rr tfbam_kwargs =
  tfbam_input_path :: string
  tfbam_read_requirements :: "'rr option"
  unused_block_size :: "int option"
  tfbam_downsample_fraction :: "pyfloat option"
  tfbam_random_seed :: "int option"

text \<open>
  What the constructor does outside the module, in the order it does it: the import of
  \<open>tfbam_lib\<close>, the call of its factory, and the opening of the file by the native
  reader. A construction that records no call has touched neither a backend nor a file.
\<close>

datatype 'rr call =
    Import_tfbam_lib
  | Tfbam_make_sam_reader "'rr tfbam_kwargs"
  | SamReader_from_file string "'rr SamReaderOptions"

text \<open>
  The surroundings of a construction: whether the optional module \<open>tfbam_lib\<close> can be
  imported and, if so, what its factory returns or raises; what
  \<open>sam_reader.SamReader.from_file\<close> returns or raises; and the \<open>header\<close> attribute of
  a native reader. \<open>'b\<close> is the backend reader object, \<open>'hd\<close> the header message.
\<close>

record ('rr, 'b, 'hd) environment =
  tfbam_lib :: "('rr tfbam_kwargs \<Rightarrow> exn + 'b) option"
  from_file :: "string \<Rightarrow> 'rr SamReaderOptions \<Rightarrow> exn + 'b"
  header_of :: "'b \<Rightarrow> 'hd"

text \<open>
  The attributes of the constructed object: \<open>self._reader\<close> and \<open>self.header\<close>.
  The \<open>.tfbam\<close> branch does not assign \<open>self.header\<close>.
\<close>

record ('b, 'hd) NativeSamReader =
  reader :: 'b
  header :: "'hd option"

definition tfbam_missing_message :: string where
  "tfbam_missing_message = ''tfbam_lib module not found, cannot read .tfbam files.''"

definition downsample_message :: string where
  "downsample_message = ''downsample_fraction must be in the interval (0.0, 1.0]''"

text \<open>\<open>hts_block_size or 0\<close>: None and 0 are falsy.\<close>

definition or_zero :: "int option \<Rightarrow> int" where
  "or_zero v = (case v of None \<Rightarrow> 0 | Some n \<Rightarrow> if n \<noteq> 0 then n else 0)"

text \<open>
  The \<open>try\<close> block of the \<open>.tfbam\<close> branch. The import raises ImportError when the
  module is absent. The handler \<open>except ImportError\<close> encloses the call of the factory
  too, so an ImportError from the factory is replaced by the same new ImportError; any
  other exception of the factory propagates.
\<close>

definition open_tfbam ::
  "('rr, 'b, 'hd) environment \<Rightarrow> 'rr tfbam_kwargs
   \<Rightarrow> (exn + ('b, 'hd) NativeSamReader) \<times> 'rr call list" where
  "open_tfbam env kwargs =
     (case tfbam_lib env of
        None \<Rightarrow> (Inl (Exn ImportError [PStr tfbam_missing_message]), [Import_tfbam_lib])
      | Some make_sam_reader \<Rightarrow>
          ((case make_sam_reader kwargs of
              Inl e \<Rightarrow>
                if exn_class_of e = ImportError
                then Inl (Exn ImportError [PStr tfbam_missing_message])
                else Inl e
            | Inr r \<Rightarrow> Inr \<lparr>reader = r, header = None\<rparr>),
           [Import_tfbam_lib, Tfbam_make_sam_reader kwargs]))"

text \<open>
  The last statements of the other branch: \<open>SamReader.from_file\<close> is called with the
  path and the options, its exception propagates, and on success the header is read from
  the backend reader.
\<close>

definition open_native ::
  "('rr, 'b, 'hd) environment \<Rightarrow> string \<Rightarrow> 'rr SamReaderOptions
   \<Rightarrow> (exn + ('b, 'hd) NativeSamReader) \<times> 'rr call list" where
  "open_native env input_path options =
     ((case from_file env input_path options of
         Inl e \<Rightarrow> Inl e
       | Inr r \<Rightarrow> Inr \<lparr>reader = r, header = Some (header_of env r)\<rparr>),
      [SamReader_from_file input_path options])"

text \<open>
  \<open>NativeSamReader.__init__\<close>. The result is the exception raised or the object
  built, and the calls made on the way. A path is the byte string \<open>encode('utf8')\<close>
  gives. The closing call of the base class initialiser (\<open>genomics_reader\<close>, outside
  the module) takes no argument of the constructor and is left out.
\<close>

definition NativeSamReader_init ::
  "('rr, 'b, 'hd) environment \<Rightarrow> string \<Rightarrow> 'rr option \<Rightarrow> bool \<Rightarrow> int option
   \<Rightarrow> pyfloat option \<Rightarrow> int option
   \<Rightarrow> (exn + ('b, 'hd) NativeSamReader) \<times> 'rr call list" where
  "NativeSamReader_init env input_path read_reqs parse_aux_fields hts_bs fraction seed =
     (if endswith input_path ''.tfbam'' then
        open_tfbam env
          \<lparr>tfbam_input_path = input_path,
           tfbam_read_requirements = read_reqs,
           unused_block_size = hts_bs,
           tfbam_downsample_fraction = fraction,
           tfbam_random_seed = seed\<rparr>
      else
        (let aux = (if parse_aux_fields then PARSE_ALL_AUX_FIELDS else SKIP_AUX_FIELDS) in
         case (case fraction of
                 None \<Rightarrow> None
               | Some f \<Rightarrow>
                   if float_ne f (Finite 0)
                   then (if \<not> (float_lt (Finite 0) f \<and> float_le f (Finite 1))
                         then Some (Exn ValueError [PStr downsample_message, PFloat f])
                         else None)
                   else None) of
           Some e \<Rightarrow> (Inl e, [])
         | None \<Rightarrow>
             (let seed' = (case seed of None \<Rightarrow> 2928130004 | Some s \<Rightarrow> s) in
              open_native env input_path
                \<lparr>read_requirements = read_reqs,
                 aux_field_handling = aux,
                 hts_block_size = or_zero hts_bs,
                 downsample_fraction = fraction,
                 random_seed = seed'\<rparr>)))"

text \<open>
  Two surroundings for concrete runs: one where \<open>tfbam_lib\<close> is not installed, one
  where it is. Their backends return the path they were given as the reader object.
\<close>

definition env_without_tfbam :: "(unit, string, string) environment" where
  "env_without_tfbam =
     \<lparr>tfbam_lib = None,
      from_file = (\<lambda>path options. Inr path),
      header_of = (\<lambda>r. ''@HD'')\<rparr>"

definition env_with_tfbam :: "(unit, string, string) environment" where
  "env_with_tfbam =
     \<lparr>tfbam_lib = Some (\<lambda>kwargs. Inr (tfbam_input_path kwargs)),
      from_file = (\<lambda>path options. Inr path),
      header_of = (\<lambda>r. ''@HD'')\<rparr>"

subsection \<open>NativeSamWriter\<close>

text \<open>
  Both \<open>__init__\<close> and \<open>write\<close> consist of \<open>raise NotImplementedError\<close>.
  The writer object has no attribute that is ever assigned;
  \<open>SamWriter._native_writer\<close> forwards to the constructor.
\<close>

datatype NativeSamWriter = NativeSamWriter_object

definition NativeSamWriter_init :: "string \<Rightarrow> 'hd \<Rightarrow> exn + NativeSamWriter" where
  "NativeSamWriter_init output_path hdr = Inl (Exn NotImplementedError [])"

definition NativeSamWriter_write :: "NativeSamWriter \<Rightarrow> 'p \<Rightarrow> exn + unit" where
  "NativeSamWriter_write self proto = Inl (Exn NotImplementedError [])"

definition native_writer :: "string \<Rightarrow> 'hd \<Rightarrow> exn + NativeSamWriter" where
  "native_writer output_path hdr = NativeSamWriter_init output_path hdr"

text \<open>
  The write path as the module's docstring uses it: build the writer, then write the
  record; an exception of the first step ends the run.
\<close>

definition write_record :: "string \<Rightarrow> 'hd \<Rightarrow> 'p \<Rightarrow> exn + unit" where
  "write_record output_path hdr proto =
     (case native_writer output_path hdr of
        Inl e \<Rightarrow> Inl e
      | Inr w \<Rightarrow> NativeSamWriter_write w proto)"

section \<open>Properties of InMemorySamReader\<close>

text \<open>
  The loop of \<open>query\<close> keeps, in order, the reads that pass the test.
\<close>

lemma scan_reads_filter:
  "scan_reads overlap span_of region rs = filter (\<lambda>read. overlap region (span_of read)) rs"
  by (induction rs) simp_all

text \<open>
  C1: for every list of reads and every region, \<open>query(region)\<close> yields exactly the
  stored reads whose span overlaps the region, in the order of the stored list and as often
  as they occur in it; the scan is the same whatever \<open>is_sorted\<close> says. With the overlap
  test and the span of the specification, the list \<open>[A(chr1,10,20), B(chr1,30,40),
  C(chr2,10,20)]\<close> queried with \<open>{chr1,15,35}\<close> gives \<open>[A, B]\<close>, and queried with
  \<open>{chr3,0,100}\<close> gives the empty sequence.
\<close>

theorem C1_query_linear_scan:
  "query overlap span_of self region
     = filter (\<lambda>read. overlap region (span_of read)) (reads self)
   \<and> query overlap span_of (self\<lparr>is_sorted := flag\<rparr>) region
     = query overlap span_of self region
   \<and> query ranges_overlap read_range
       (InMemorySamReader_init [read_A, read_B, read_C] False) region_chr1
     = [read_A, read_B]
   \<and> query ranges_overlap read_range
       (InMemorySamReader_init [read_A, read_B, read_C] False) region_chr3
     = []"
  by (simp add: query_def scan_reads_filter InMemorySamReader_init_def replace_reads_def
      ranges_overlap_def read_range_def read_A_def read_B_def read_C_def
      region_chr1_def region_chr3_def)

text \<open>
  C6: for every reader state and every region, the multiset of reads yielded by
  \<open>query(region)\<close> is contained in the multiset yielded by \<open>iterate()\<close>, and it is
  that multiset restricted to the reads whose span overlaps the region: overlap alone
  decides membership.
\<close>

theorem C6_query_subset_of_iterate:
  "mset (query overlap span_of self region) \<subseteq># mset (iterate self)
   \<and> mset (query overlap span_of self region)
     = filter_mset (\<lambda>read. overlap region (span_of read)) (mset (iterate self))"
  by (simp add: query_def iterate_def scan_reads_filter)

text \<open>
  C7: for every stored read list, \<open>iterate()\<close> yields exactly the stored list in its
  current order; no read is dropped, added or reordered, whatever the reads are and
  whatever the sorted flag says.
\<close>

theorem C7_iterate_is_stored_list:
  "iterate (InMemorySamReader_init rs srt) = rs \<and> iterate self = reads self"
  by (simp add: iterate_def InMemorySamReader_init_def replace_reads_def)

text \<open>
  C8: \<open>replace_reads(records, is_sorted)\<close> replaces the prior state. Afterwards
  \<open>iterate()\<close> yields exactly the new records and \<open>query\<close> answers as a reader
  freshly built from the new records would, so nothing of the old list is consulted. After
  replacing with the empty list, \<open>iterate()\<close> yields nothing and \<open>query(region)\<close>
  yields nothing for every region.
\<close>

theorem C8_replace_reads_replaces_state:
  "iterate (replace_reads self new_reads flag) = new_reads
   \<and> query overlap span_of (replace_reads self new_reads flag) region
     = query overlap span_of (InMemorySamReader_init new_reads flag) region
   \<and> is_sorted (replace_reads self new_reads flag) = flag
   \<and> iterate (replace_reads self [] flag) = []
   \<and> query overlap span_of (replace_reads self [] flag) region = []"
  by (simp add: query_def iterate_def replace_reads_def InMemorySamReader_init_def)

section \<open>Properties of NativeSamWriter\<close>

text \<open>
  C5: for every output path, header and record, the native writer fails with
  NotImplementedError: the constructor raises it, \<open>write\<close> raises it on any object, and
  so does the two-step write path.
\<close>

theorem C5_native_writer_not_implemented:
  "NativeSamWriter_init output_path hdr = Inl (Exn NotImplementedError [])
   \<and> NativeSamWriter_write w proto = Inl (Exn NotImplementedError [])
   \<and> write_record output_path hdr proto = Inl (Exn NotImplementedError [])"
  by (simp add: NativeSamWriter_init_def NativeSamWriter_write_def write_record_def
      native_writer_def)

section \<open>Properties of NativeSamReader.__init__\<close>

text \<open>
  The two tests on \<open>downsample_fraction\<close> reject exactly the values outside
  \<open>{0} \<union> (0, 1]\<close>; NaN and the infinities are among the rejected.
\<close>

lemma fraction_accepted_iff:
  "(float_ne f (Finite 0) \<and> \<not> (float_lt (Finite 0) f \<and> float_le f (Finite 1)))
   = (f \<notin> Finite ` insert 0 {0<..1})"
  by (cases f) (auto simp: float_ne_def float_le_def)

text \<open>
  C2, as stated, fails on a path ending in \<open>.tfbam\<close>: with the fraction 1.5 and
  \<open>tfbam_lib\<close> not installed, the constructor has tried the import and raises
  ImportError, not ValueError.
\<close>

theorem C2_tfbam_path_counterexample:
  "NativeSamReader_init env_without_tfbam ''reads.tfbam'' None False None
     (Some (Finite 1.5)) None
   = (Inl (Exn ImportError [PStr tfbam_missing_message]), [Import_tfbam_lib])"
  by (simp add: NativeSamReader_init_def endswith_def open_tfbam_def env_without_tfbam_def)

text \<open>
  C2, amended: on a path that does not end in \<open>.tfbam\<close>, constructing a
  NativeSamReader with a \<open>downsample_fraction\<close> that is not None, not 0 and not within
  \<open>(0.0, 1.0]\<close> fails with ValueError, and no call to a backend has been made.
\<close>

theorem C2_out_of_range_rejected:
  assumes "\<not> endswith input_path ''.tfbam''"
    and "f \<notin> Finite ` insert 0 {0<..1}"
  shows "NativeSamReader_init env input_path read_reqs parse_aux_fields hts_bs (Some f) seed
         = (Inl (Exn ValueError [PStr downsample_message, PFloat f]), [])"
  using assms fraction_accepted_iff [of f]
  by (simp add: NativeSamReader_init_def)

text \<open>
  The amended C2 at the path \<open>reads.bam\<close> with the fractions 1.5 and -0.1.
\<close>

theorem C2_out_of_range_rejected_witness:
  "\<not> endswith ''reads.bam'' ''.tfbam''
   \<and> Finite 1.5 \<notin> Finite ` insert 0 {0<..1}
   \<and> Finite (- 0.1) \<notin> Finite ` insert 0 {0<..1}
   \<and> NativeSamReader_init env_without_tfbam ''reads.bam'' None False None
        (Some (Finite 1.5)) None
      = (Inl (Exn ValueError [PStr downsample_message, PFloat (Finite 1.5)]), [])
   \<and> NativeSamReader_init env_without_tfbam ''reads.bam'' None False None
        (Some (Finite (- 0.1))) None
      = (Inl (Exn ValueError [PStr downsample_message, PFloat (Finite (- 0.1))]), [])"
proof -
  have p: "\<not> endswith ''reads.bam'' ''.tfbam''" by (simp add: endswith_def)
  have a: "Finite 1.5 \<notin> Finite ` insert 0 {0<..1}" by (simp add: image_iff)
  have b: "Finite (- 0.1) \<notin> Finite ` insert 0 {0<..1}" by (simp add: image_iff)
  show ?thesis
    using p a b
      C2_out_of_range_rejected [OF p a, of env_without_tfbam None False None None]
      C2_out_of_range_rejected [OF p b, of env_without_tfbam None False None None]
    by simp
qed



text \<open>
  C4: on every path ending in \<open>.tfbam\<close>, when \<open>tfbam_lib\<close> is absent the
  constructor fails with ImportError after the import attempt; the native reader is never
  asked to open the file, so there is no fallback to another backend.
\<close>

theorem C4_tfbam_without_module:
  assumes "endswith input_path ''.tfbam''" and "tfbam_lib env = None"
  shows "NativeSamReader_init env input_path read_reqs parse_aux_fields hts_bs fraction seed
         = (Inl (Exn ImportError [PStr tfbam_missing_message]), [Import_tfbam_lib])"
  using assms by (simp add: NativeSamReader_init_def open_tfbam_def)

text \<open>
  C4 at the path \<open>reads.tfbam\<close>.
\<close>

theorem C4_tfbam_without_module_witness:
  "endswith ''reads.tfbam'' ''.tfbam'' \<and> tfbam_lib env_without_tfbam = None
   \<and> NativeSamReader_init env_without_tfbam ''reads.tfbam'' None False None None None
     = (Inl (Exn ImportError [PStr tfbam_missing_message]), [Import_tfbam_lib])"
proof -
  have p: "endswith ''reads.tfbam'' ''.tfbam''" by (simp add: endswith_def)
  have m: "tfbam_lib env_without_tfbam = None" by (simp add: env_without_tfbam_def)
  show ?thesis
    using p m C4_tfbam_without_module [OF p m, of None False None None None] by simp
qed

text \<open>
  C9, as stated, fails on a path ending in \<open>.tfbam\<close>: with \<open>tfbam_lib\<close>
  installed and \<open>random_seed = None\<close>, the tfbam factory is called with the seed None;
  no constant is substituted.
\<close>

theorem C9_tfbam_seed_counterexample:
  "snd (NativeSamReader_init env_with_tfbam ''reads.tfbam'' None False None
          (Some (Finite 0.5)) None)
   = [Import_tfbam_lib,
      Tfbam_make_sam_reader
        \<lparr>tfbam_input_path = ''reads.tfbam'', tfbam_read_requirements = None,
         unused_block_size = None, tfbam_downsample_fraction = Some (Finite 0.5),
         tfbam_random_seed = None\<rparr>]"
  by (simp add: NativeSamReader_init_def endswith_def open_tfbam_def env_with_tfbam_def)

text \<open>
  C9, amended: on a path that does not end in \<open>.tfbam\<close>, constructing with
  \<open>random_seed = None\<close> is the same as constructing with the seed 2928130004: every
  options message handed to the native reader carries that seed, and the calls made do not
  depend on the surroundings, so two constructions with the same arguments and no explicit
  seed configure the backend identically.
\<close>

theorem C9_default_seed:
  assumes "\<not> endswith input_path ''.tfbam''"
  shows "NativeSamReader_init env input_path read_reqs parse_aux_fields hts_bs fraction None
         = NativeSamReader_init env input_path read_reqs parse_aux_fields hts_bs fraction
             (Some 2928130004)
         \<and> (\<forall>p options.
               SamReader_from_file p options
                 \<in> set (snd (NativeSamReader_init env input_path read_reqs parse_aux_fields
                              hts_bs fraction None))
               \<longrightarrow> random_seed options = 2928130004)
         \<and> snd (NativeSamReader_init env input_path read_reqs parse_aux_fields hts_bs
                  fraction None)
           = snd (NativeSamReader_init env' input_path read_reqs parse_aux_fields hts_bs
                    fraction None)"
  using assms
  by (auto simp: NativeSamReader_init_def open_native_def Let_def split: option.splits)

text \<open>
  The amended C9 at the path \<open>reads.bam\<close> with the fraction 0.5, in two different
  surroundings.
\<close>

theorem C9_default_seed_witness:
  "\<not> endswith ''reads.bam'' ''.tfbam''
   \<and> SamReader_from_file ''reads.bam''
        \<lparr>read_requirements = None, aux_field_handling = SKIP_AUX_FIELDS,
         hts_block_size = 0, downsample_fraction = Some (Finite 0.5),
         random_seed = 2928130004\<rparr>
      \<in> set (snd (NativeSamReader_init env_without_tfbam ''reads.bam'' None False None
                   (Some (Finite 0.5)) None))
   \<and> NativeSamReader_init env_without_tfbam ''reads.bam'' None False None
        (Some (Finite 0.5)) None
      = NativeSamReader_init env_without_tfbam ''reads.bam'' None False None
          (Some (Finite 0.5)) (Some 2928130004)
   \<and> snd (NativeSamReader_init env_without_tfbam ''reads.bam'' None False None
            (Some (Finite 0.5)) None)
      = snd (NativeSamReader_init env_with_tfbam ''reads.bam'' None False None
               (Some (Finite 0.5)) None)"
proof -
  have p: "\<not> endswith ''reads.bam'' ''.tfbam''" by (simp add: endswith_def)
  have c: "SamReader_from_file ''reads.bam''
        \<lparr>read_requirements = None, aux_field_handling = SKIP_AUX_FIELDS,
         hts_block_size = 0, downsample_fraction = Some (Finite 0.5),
         random_seed = 2928130004\<rparr>
      \<in> set (snd (NativeSamReader_init env_without_tfbam ''reads.bam'' None (False) None
                   (Some (Finite 0.5)) None))"
    by (simp add: NativeSamReader_init_def endswith_def open_native_def or_zero_def
        float_ne_def float_le_def)
  show ?thesis
    using p c
      C9_default_seed [OF p, of env_without_tfbam None False None "Some (Finite 0.5)"
        env_with_tfbam]
    by blast
qed

text \<open>
  C10: on every path ending in \<open>.tfbam\<close> the constructor does not test the range of
  \<open>downsample_fraction\<close>. When \<open>tfbam_lib\<close> is absent the construction fails with
  ImportError whatever the fraction is. When it is present the factory is called with the
  fraction as given, and a ValueError comes out of the construction only if the factory
  itself raised it.
\<close>

theorem C10_tfbam_fraction_unchecked:
  assumes "endswith input_path ''.tfbam''"
  shows "(tfbam_lib env = None \<longrightarrow>
            NativeSamReader_init env input_path read_reqs parse_aux_fields hts_bs fraction seed
            = (Inl (Exn ImportError [PStr tfbam_missing_message]), [Import_tfbam_lib]))
         \<and> (\<forall>make_sam_reader. tfbam_lib env = Some make_sam_reader \<longrightarrow>
              snd (NativeSamReader_init env input_path read_reqs parse_aux_fields hts_bs
                     fraction seed)
              = [Import_tfbam_lib,
                 Tfbam_make_sam_reader
                   \<lparr>tfbam_input_path = input_path, tfbam_read_requirements = read_reqs,
                    unused_block_size = hts_bs, tfbam_downsample_fraction = fraction,
                    tfbam_random_seed = seed\<rparr>]
              \<and> (\<forall>args.
                    fst (NativeSamReader_init env input_path read_reqs parse_aux_fields
                           hts_bs fraction seed) = Inl (Exn ValueError args)
                    \<longrightarrow> make_sam_reader
                          \<lparr>tfbam_input_path = input_path,
                           tfbam_read_requirements = read_reqs,
                           unused_block_size = hts_bs,
                           tfbam_downsample_fraction = fraction,
                           tfbam_random_seed = seed\<rparr>
                        = Inl (Exn ValueError args)))"
  using assms
  by (auto simp: NativeSamReader_init_def open_tfbam_def split: sum.splits if_splits)

text \<open>
  C10 at the path \<open>reads.tfbam\<close> with the out-of-range fractions 1.5 and -0.1,
  without and with \<open>tfbam_lib\<close>.
\<close>

theorem C10_tfbam_fraction_unchecked_witness:
  "endswith ''reads.tfbam'' ''.tfbam''
   \<and> tfbam_lib env_without_tfbam = None
   \<and> NativeSamReader_init env_without_tfbam ''reads.tfbam'' None False None
        (Some (Finite 1.5)) None
      = (Inl (Exn ImportError [PStr tfbam_missing_message]), [Import_tfbam_lib])
   \<and> tfbam_lib env_with_tfbam = Some (\<lambda>kwargs. Inr (tfbam_input_path kwargs))
   \<and> snd (NativeSamReader_init env_with_tfbam ''reads.tfbam'' None False None
            (Some (Finite (- 0.1))) None)
      = [Import_tfbam_lib,
         Tfbam_make_sam_reader
           \<lparr>tfbam_input_path = ''reads.tfbam'', tfbam_read_requirements = None,
            unused_block_size = None, tfbam_downsample_fraction = Some (Finite (- 0.1)),
            tfbam_random_seed = None\<rparr>]"
proof -
  have p: "endswith ''reads.tfbam'' ''.tfbam''" by (simp add: endswith_def)
  have a: "tfbam_lib env_without_tfbam = None" by (simp add: env_without_tfbam_def)
  have b: "tfbam_lib env_with_tfbam = Some (\<lambda>kwargs. Inr (tfbam_input_path kwargs))"
    by (simp add: env_with_tfbam_def)
  show ?thesis
    using p a b
      C10_tfbam_fraction_unchecked [OF p, of env_without_tfbam None False None
        "Some (Finite 1.5)" None]
      C10_tfbam_fraction_unchecked [OF p, of env_with_tfbam None False None
        "Some (Finite (- 0.1))" None]
    by simp
qed

end
